theory Spec2Isabelle
  imports Main "HOL-Library.Char_ord" "HOL-Library.List_Lexorder"
    "HOL-Library.Product_Lexorder" "HOL-Library.Extended_Nat"
begin

section \<open>Python values and exceptions\<close>

text \<open>
  The plugin models of \<^verbatim>\<open>nomad/config/models/plugins.py\<close> are pydantic classes.
  Field values and the raw keyword arguments handed to a validator are Python objects;
  \<open>pyval\<close> covers the kinds that occur in these models.  \<open>bytes\<close> values are
  lists of 8-bit characters, like \<open>string\<close>.
\<close>

type_synonym bytes = string

datatype pyval =
    PNone
  | PBool bool
  | PInt int
  | PStr string
  | PBytes bytes
  | PList "pyval list"
  | PDict "(string \<times> pyval) list"

text \<open>Python truthiness, as used by \<^verbatim>\<open>if path and url\<close> and \<^verbatim>\<open>not path\<close>.\<close>

fun truthy :: "pyval \<Rightarrow> bool" where
  "truthy PNone = False"
| "truthy (PBool b) = b"
| "truthy (PInt i) = (i \<noteq> 0)"
| "truthy (PStr s) = (s \<noteq> [])"
| "truthy (PBytes b) = (b \<noteq> [])"
| "truthy (PList xs) = (xs \<noteq> [])"
| "truthy (PDict kvs) = (kvs \<noteq> [])"

text \<open>The exceptions that the modelled functions let escape.\<close>

datatype py_error =
    ValueError string
  | KeyError "string option"
  | AttributeError string
  | ModuleNotFoundError string
  | InvalidVersion string

text \<open>\<^verbatim>\<open>values.get(k)\<close>: the value stored under \<open>k\<close>, \<^verbatim>\<open>None\<close> when the key is missing.\<close>

definition dict_get :: "(string \<rightharpoonup> pyval) \<Rightarrow> string \<Rightarrow> pyval" where
  "dict_get values k = (case values k of None \<Rightarrow> PNone | Some v \<Rightarrow> v)"

section \<open>ExampleUploadEntryPoint: the root validator\<close>

text \<open>
  \<^verbatim>\<open>ExampleUploadEntryPoint._validate\<close> is a \<^verbatim>\<open>root_validator(pre=True)\<close>: it receives
  the raw keyword arguments of the constructor as a dictionary and either raises
  \<^verbatim>\<open>ValueError\<close> or returns the dictionary unchanged.  (The leading underscore of the
  Python name is dropped.)
\<close>

definition validate :: "(string \<rightharpoonup> pyval) \<Rightarrow> py_error + (string \<rightharpoonup> pyval)" where
  "validate values =
     (let path = dict_get values ''path'';
          url = dict_get values ''url'';
          local_path = dict_get values ''local_path''
      in if truthy path \<and> truthy url
           then Inl (ValueError ''Provide only \"path\" or \"url\", not both.'')
         else if \<not> truthy path \<and> \<not> truthy url \<and> \<not> truthy local_path
           then Inl (ValueError ''Provide one of \"path\", \"url\" or \"local_path\".'')
         else Inr values)"

text \<open>A keyword argument is provided when the caller passed it with a value other than \<^verbatim>\<open>None\<close>.\<close>

definition provided :: "(string \<rightharpoonup> pyval) \<Rightarrow> string \<Rightarrow> bool" where
  "provided values k = (dict_get values k \<noteq> PNone)"

section \<open>The plugin models\<close>

text \<open>
  Each pydantic class becomes a record with the fields of the class in declaration order,
  inherited fields first.  \<^verbatim>\<open>Optional[T]\<close> fields are \<open>T option\<close>.  The field
  \<^verbatim>\<open>id\<close> is called \<open>plugin_id\<close> in the legacy plugin models and \<open>ep_id\<close> in the
  entry points, since \<open>id\<close> is the identity function of HOL.  The legacy models
  \<^verbatim>\<open>Schema\<close> and \<^verbatim>\<open>Parser\<close> come first; where a later entry-point record
  reuses a field name, the legacy field is written with its record name in front
  (\<open>parser.level\<close>).
\<close>

record plugin_base =
  plugin_type :: string
  plugin_id :: "string option"
  name :: string
  description :: "string option"
  plugin_documentation_url :: "string option"
  plugin_source_code_url :: "string option"

record python_plugin_base = plugin_base +
  python_package :: string

record schema = python_plugin_base +
  package_path :: "string option"
  key :: "string option"

record parser = python_plugin_base +
  parser_class_name :: string
  parser_as_interface :: bool
  mainfile_contents_re :: "string option"
  mainfile_name_re :: string
  mainfile_mime_re :: string
  mainfile_binary_header :: "bytes option"
  mainfile_binary_header_re :: "bytes option"
  mainfile_alternative :: bool
  mainfile_contents_dict :: "(string \<times> pyval) list option"
  supported_compressions :: "string list"
  domain :: string
  level :: int
  code_name :: "string option"
  code_homepage :: "string option"
  code_category :: "string option"
  metadata :: "(string \<times> pyval) list option"

record entry_point =
  ep_id :: "string option"
  entry_point_type :: string
  name :: "string option"
  description :: "string option"
  plugin_package :: "string option"

record parser_entry_point = entry_point +
  level :: int
  aliases :: "string list"
  mainfile_contents_re :: "string option"
  mainfile_name_re :: string
  mainfile_mime_re :: string
  mainfile_binary_header :: "bytes option"
  mainfile_binary_header_re :: "bytes option"
  mainfile_alternative :: bool
  mainfile_contents_dict :: "(string \<times> pyval) list option"
  supported_compressions :: "string list"

text \<open>
  A model constructed from its required arguments alone carries the \<^verbatim>\<open>Field\<close>
  defaults: an \<^verbatim>\<open>Optional\<close> field without a default is \<^verbatim>\<open>None\<close>.
  \<^verbatim>\<open>ParserEntryPoint\<close> has no required field; \<^verbatim>\<open>Parser\<close> requires
  \<^verbatim>\<open>name\<close>, \<^verbatim>\<open>python_package\<close> and \<^verbatim>\<open>parser_class_name\<close>.
\<close>

definition ParserEntryPoint :: parser_entry_point where
  "ParserEntryPoint =
     \<lparr> ep_id = None, entry_point_type = ''parser'', name = None, description = None,
       plugin_package = None,
       level = 0, aliases = [], mainfile_contents_re = None,
       mainfile_name_re = ''.*'', mainfile_mime_re = ''.*'',
       mainfile_binary_header = None, mainfile_binary_header_re = None,
       mainfile_alternative = False, mainfile_contents_dict = None,
       supported_compressions = [] \<rparr>"

definition Parser :: "string \<Rightarrow> string \<Rightarrow> string \<Rightarrow> parser" where
  "Parser nm pkg cls =
     \<lparr> plugin_type = ''parser'', plugin_id = None, plugin_base.name = nm,
       plugin_base.description = None, plugin_documentation_url = None,
       plugin_source_code_url = None, python_package = pkg,
       parser_class_name = cls, parser_as_interface = False,
       parser.mainfile_contents_re = None,
       parser.mainfile_name_re = ''.*'', parser.mainfile_mime_re = ''text/.*'',
       parser.mainfile_binary_header = None, parser.mainfile_binary_header_re = None,
       parser.mainfile_alternative = False, parser.mainfile_contents_dict = None,
       parser.supported_compressions = [],
       domain = ''dft'', parser.level = 0, code_name = None, code_homepage = None,
       code_category = None, metadata = None \<rparr>"

subsection \<open>Safe serialisation of a parser entry point\<close>

definition of_optional :: "('a \<Rightarrow> pyval) \<Rightarrow> 'a option \<Rightarrow> pyval" where
  "of_optional f v = (case v of None \<Rightarrow> PNone | Some x \<Rightarrow> f x)"

text \<open>\<^verbatim>\<open>ParserEntryPoint.__fields__\<close>: the declared fields and their values, in order.\<close>

definition ParserEntryPoint_fields :: "parser_entry_point \<Rightarrow> (string \<times> pyval) list" where
  "ParserEntryPoint_fields p =
     [ (''id'', of_optional PStr (ep_id p)),
       (''entry_point_type'', PStr (entry_point_type p)),
       (''name'', of_optional PStr (name p)),
       (''description'', of_optional PStr (description p)),
       (''plugin_package'', of_optional PStr (plugin_package p)),
       (''level'', PInt (level p)),
       (''aliases'', PList (map PStr (aliases p))),
       (''mainfile_contents_re'', of_optional PStr (mainfile_contents_re p)),
       (''mainfile_name_re'', PStr (mainfile_name_re p)),
       (''mainfile_mime_re'', PStr (mainfile_mime_re p)),
       (''mainfile_binary_header'', of_optional PBytes (mainfile_binary_header p)),
       (''mainfile_binary_header_re'', of_optional PBytes (mainfile_binary_header_re p)),
       (''mainfile_alternative'', PBool (mainfile_alternative p)),
       (''mainfile_contents_dict'', of_optional PDict (mainfile_contents_dict p)),
       (''supported_compressions'', PList (map PStr (supported_compressions p))) ]"

text \<open>
  \<^verbatim>\<open>self.dict(include=keys, exclude_none=True)\<close> of pydantic: the fields in declaration
  order, restricted to the included keys, without the fields whose value is
  \<^verbatim>\<open>None\<close>.  Fields that a subclass adds are not among the included keys.
\<close>

definition dict_include :: "string list \<Rightarrow> bool \<Rightarrow> (string \<times> pyval) list \<Rightarrow> (string \<times> pyval) list" where
  "dict_include keys exclude_none kvs =
     filter (\<lambda>(k, v). k \<in> set keys \<and> \<not> (exclude_none \<and> v = PNone)) kvs"

text \<open>
  \<^verbatim>\<open>ParserEntryPoint.dict_safe\<close>.  The key set is built from all field names, then
  the two binary fields are removed (both are present, so \<^verbatim>\<open>set.remove\<close> does not raise).
\<close>

definition dict_safe :: "parser_entry_point \<Rightarrow> (string \<times> pyval) list" where
  "dict_safe self =
     (let keys = map fst (ParserEntryPoint_fields self);
          keys = removeAll ''mainfile_binary_header_re'' keys;
          keys = removeAll ''mainfile_binary_header'' keys
      in dict_include keys True (ParserEntryPoint_fields self))"

section \<open>Adding and removing plugins\<close>

text \<open>
  \<^verbatim>\<open>add_plugin\<close> and \<^verbatim>\<open>remove_plugin\<close> act on three pieces of global state:
  \<^verbatim>\<open>sys.path\<close>, the dictionary \<^verbatim>\<open>config.plugins.entry_points.options\<close> and
  \<^verbatim>\<open>Package.registry\<close>.  A dictionary keeps insertion order, so both dictionaries are
  association lists with distinct keys.

  The argument of both functions is annotated as \<^verbatim>\<open>Schema\<close>, which Python does not
  enforce, and the dictionary of options holds every kind of entry point.  The argument is
  therefore an instance of one of the plugin models; of these, the legacy schema and
  parser plugins and the parser entry point are modelled.
\<close>

datatype plugin =
    SchemaPlugin schema
  | ParserPlugin parser
  | ParserEntryPointPlugin parser_entry_point

text \<open>
  Reading an attribute of a pydantic model that the class does not declare raises
  \<^verbatim>\<open>AttributeError\<close>.  \<^verbatim>\<open>package_path\<close> and \<^verbatim>\<open>key\<close> are fields of
  \<^verbatim>\<open>Schema\<close> alone; \<^verbatim>\<open>python_package\<close> is a field of the legacy plugins.
\<close>

fun getattr_package_path :: "plugin \<Rightarrow> py_error + string option" where
  "getattr_package_path (SchemaPlugin p) = Inr (package_path p)"
| "getattr_package_path (ParserPlugin p) = Inl (AttributeError ''package_path'')"
| "getattr_package_path (ParserEntryPointPlugin p) = Inl (AttributeError ''package_path'')"

fun getattr_key :: "plugin \<Rightarrow> py_error + string option" where
  "getattr_key (SchemaPlugin p) = Inr (key p)"
| "getattr_key (ParserPlugin p) = Inl (AttributeError ''key'')"
| "getattr_key (ParserEntryPointPlugin p) = Inl (AttributeError ''key'')"

fun getattr_python_package :: "plugin \<Rightarrow> py_error + string" where
  "getattr_python_package (SchemaPlugin p) = Inr (python_package p)"
| "getattr_python_package (ParserPlugin p) = Inr (python_package p)"
| "getattr_python_package (ParserEntryPointPlugin p) = Inl (AttributeError ''python_package'')"

record 'pkg global_state =
  sys_path :: "string option list"
  options :: "(string option \<times> plugin) list"
  registry :: "(string \<times> 'pkg) list"

text \<open>
  What lies outside the file.  \<^verbatim>\<open>importlib.import_module\<close> finds the module of a
  package name or raises \<^verbatim>\<open>ModuleNotFoundError\<close>.  The module has an attribute
  \<^verbatim>\<open>m_package\<close> or has none, and then reading it raises \<^verbatim>\<open>AttributeError\<close>.
  \<^verbatim>\<open>__init_metainfo__\<close> is a method of the package object: it may change
  \<^verbatim>\<open>Package.registry\<close> and it may raise.  \<^verbatim>\<open>reload_quantities_dynamic\<close> changes
  none of the three pieces of state, and it may raise.
\<close>

record ('mod, 'pkg) environment =
  import_module :: "string \<Rightarrow> 'mod option"
  m_package :: "'mod \<Rightarrow> 'pkg option"
  init_metainfo :: "'pkg \<Rightarrow> (string \<times> 'pkg) list \<Rightarrow> py_error option \<times> (string \<times> 'pkg) list"
  reload_quantities_dynamic :: "'pkg global_state \<Rightarrow> py_error option"

datatype outcome = Returned | Raised py_error

text \<open>\<^verbatim>\<open>d[k] = v\<close>: replaces the value of an existing key in place, else appends.\<close>

fun dict_set :: "'k \<Rightarrow> 'v \<Rightarrow> ('k \<times> 'v) list \<Rightarrow> ('k \<times> 'v) list" where
  "dict_set k v [] = [(k, v)]"
| "dict_set k v ((k', v') # d) = (if k' = k then (k, v) # d else (k', v') # dict_set k v d)"

text \<open>\<^verbatim>\<open>del d[k]\<close> after a successful lookup.\<close>

definition dict_del :: "'k \<Rightarrow> ('k \<times> 'v) list \<Rightarrow> ('k \<times> 'v) list" where
  "dict_del k d = filter (\<lambda>(k', v). k' \<noteq> k) d"

text \<open>
  The loop over \<^verbatim>\<open>Package.registry.items()\<close>: the first entry whose value is the
  package is deleted, then the loop breaks.
\<close>

fun del_package :: "'pkg \<Rightarrow> (string \<times> 'pkg) list \<Rightarrow> (string \<times> 'pkg) list" where
  "del_package package [] = []"
| "del_package package ((k, i_package) # rest) =
     (if i_package = package then rest else (k, i_package) # del_package package rest)"

text \<open>
  The last step of both functions: \<^verbatim>\<open>entry_type.reload_quantities_dynamic()\<close>, then
  the normal return.
\<close>

definition reload_and_return ::
  "('mod, 'pkg) environment \<Rightarrow> 'pkg global_state \<Rightarrow> outcome \<times> 'pkg global_state" where
  "reload_and_return env s =
     (case reload_quantities_dynamic env s of
        Some e \<Rightarrow> (Raised e, s)
      | None \<Rightarrow> (Returned, s))"

text \<open>
  \<^verbatim>\<open>importlib.import_module(plugin.python_package)\<close> followed by the read of
  \<^verbatim>\<open>m_package\<close>: the package object, or the exception raised on the way.
\<close>

definition import_m_package :: "('mod, 'pkg) environment \<Rightarrow> plugin \<Rightarrow> py_error + 'pkg" where
  "import_m_package env plugin =
     (case getattr_python_package plugin of
        Inl e \<Rightarrow> Inl e
      | Inr package_name \<Rightarrow>
          (case import_module env package_name of
             None \<Rightarrow> Inl (ModuleNotFoundError package_name)
           | Some package \<Rightarrow>
               (case m_package env package of
                  None \<Rightarrow> Inl (AttributeError ''m_package'')
                | Some m \<Rightarrow> Inr m)))"

text \<open>
  \<^verbatim>\<open>add_plugin\<close>.  The state that comes with a raised exception is the state at the
  time of the raise: what was changed before stays changed.
\<close>

definition add_plugin ::
  "('mod, 'pkg) environment \<Rightarrow> plugin \<Rightarrow> 'pkg global_state \<Rightarrow> outcome \<times> 'pkg global_state" where
  "add_plugin env plugin s =
     (case getattr_package_path plugin of
        Inl e \<Rightarrow> (Raised e, s)
      | Inr path \<Rightarrow>
          let s1 = (if path \<notin> set (sys_path s) then s\<lparr>sys_path := path # sys_path s\<rparr> else s)
          in case getattr_key plugin of
               Inl e \<Rightarrow> (Raised e, s1)
             | Inr k \<Rightarrow>
                 let s2 = s1\<lparr>options := dict_set k plugin (options s1)\<rparr>
                 in case import_m_package env plugin of
                      Inl e \<Rightarrow> (Raised e, s2)
                    | Inr package \<Rightarrow>
                        (case init_metainfo env package (registry s2) of
                           (Some e, reg) \<Rightarrow> (Raised e, s2\<lparr>registry := reg\<rparr>)
                         | (None, reg) \<Rightarrow> reload_and_return env (s2\<lparr>registry := reg\<rparr>)))"

text \<open>
  \<^verbatim>\<open>remove_plugin\<close>.  The removal from \<^verbatim>\<open>sys.path\<close> sits in a
  \<^verbatim>\<open>try\<close> that swallows every exception, that of a missing attribute and that of a
  path which is not in the list; the deletion from the options is not guarded.
\<close>

definition remove_plugin ::
  "('mod, 'pkg) environment \<Rightarrow> plugin \<Rightarrow> 'pkg global_state \<Rightarrow> outcome \<times> 'pkg global_state" where
  "remove_plugin env plugin s =
     (let s1 = (case getattr_package_path plugin of
                  Inl e \<Rightarrow> s
                | Inr path \<Rightarrow> s\<lparr>sys_path := remove1 path (sys_path s)\<rparr>)
      in case getattr_key plugin of
           Inl e \<Rightarrow> (Raised e, s1)
         | Inr k \<Rightarrow>
             if k \<notin> fst ` set (options s1) then (Raised (KeyError k), s1)
             else
               let s2 = s1\<lparr>options := dict_del k (options s1)\<rparr>
               in case import_m_package env plugin of
                    Inl e \<Rightarrow> (Raised e, s2)
                  | Inr package \<Rightarrow>
                      reload_and_return env
                        (s2\<lparr>registry := del_package package (registry s2)\<rparr>))"

text \<open>
  Example values: an environment in which one package can be imported and nothing
  raises, the state before any plugin was added, a schema plugin of that package, a state
  that holds it, a second schema plugin that no state holds, and a parser entry point
  with the name pattern \<^verbatim>\<open>*\<close>, which is not a regular expression.
\<close>

definition example_environment :: "(string, nat) environment" where
  "example_environment =
     \<lparr> import_module = (\<lambda>n. if n = ''exampleschema'' then Some n else None),
       m_package = (\<lambda>m. Some 0),
       init_metainfo = (\<lambda>package reg. (None, dict_set ''exampleschema'' package reg)),
       reload_quantities_dynamic = (\<lambda>s. None) \<rparr>"

definition initial_state :: "nat global_state" where
  "initial_state = \<lparr> sys_path = [], options = [], registry = [] \<rparr>"

definition example_schema :: schema where
  "example_schema =
     \<lparr> plugin_type = ''schema'', plugin_id = None, plugin_base.name = ''example schema'',
       plugin_base.description = None, plugin_documentation_url = None, plugin_source_code_url = None,
       python_package = ''exampleschema'',
       package_path = Some ''/plugins/exampleschema'', key = Some ''schema/example'' \<rparr>"

definition state_with_example :: "nat global_state" where
  "state_with_example =
     \<lparr> sys_path = [Some ''/plugins/exampleschema''],
       options = [(Some ''schema/example'', SchemaPlugin example_schema)],
       registry = [(''exampleschema'', 0)] \<rparr>"

definition other_schema :: schema where
  "other_schema =
     example_schema\<lparr>python_package := ''otherschema'',
       package_path := Some ''/plugins/otherschema'', key := Some ''schema/other''\<rparr>"


section \<open>Regular expressions\<close>

text \<open>
  The patterns of a parser are strings that Python's \<^verbatim>\<open>re\<close> module compiles.  The
  model covers the fragment that the defaults \<^verbatim>\<open>.*\<close> and \<^verbatim>\<open>text/.*\<close> are written
  in: literal characters, the dot (any character but a newline) and the postfix star.
  Compilation answers one of three ways: the compiled expression, the error that
  \<^verbatim>\<open>re.compile\<close> raises on a star with nothing to repeat or on a repeated star, or
  \<open>Unsupported\<close> for a pattern with any other special character, about which the model
  says nothing.
\<close>

datatype regex =
    Never
  | Empty
  | Chr char
  | AnyChar
  | Alt regex regex
  | Seq regex regex
  | Star regex

datatype compiled = Compiled regex | ReError string | Unsupported

text \<open>The special characters outside the fragment; \<open>CHR 0x5C\<close> is the backslash.\<close>

definition special :: "char \<Rightarrow> bool" where
  "special c = (c \<in> set (CHR 0x5C # ''^$+?{}[]()|''))"

definition atom :: "char \<Rightarrow> regex" where
  "atom c = (if c = CHR ''.'' then AnyChar else Chr c)"

definition then_compiled :: "regex \<Rightarrow> compiled \<Rightarrow> compiled" where
  "then_compiled r rest =
     (case rest of Compiled r' \<Rightarrow> Compiled (Seq r r') | ReError e \<Rightarrow> ReError e
      | Unsupported \<Rightarrow> Unsupported)"

fun re_compile :: "string \<Rightarrow> compiled" where
  "re_compile [] = Compiled Empty"
| "re_compile [c] =
     (if c = CHR ''*'' then ReError ''nothing to repeat''
      else if special c then Unsupported
      else Compiled (Seq (atom c) Empty))"
| "re_compile (c # d # cs) =
     (if c = CHR ''*'' then ReError ''nothing to repeat''
      else if special c then Unsupported
      else if d = CHR ''*'' then
        (case cs of
           [] \<Rightarrow> Compiled (Seq (Star (atom c)) Empty)
         | e # _ \<Rightarrow> if e = CHR ''*'' then ReError ''multiple repeat''
                    else then_compiled (Star (atom c)) (re_compile cs))
      else then_compiled (atom c) (re_compile (d # cs)))"

text \<open>
  Matching by derivatives: \<open>nullable r\<close> says that \<open>r\<close> accepts the empty string,
  \<open>deriv c r\<close> accepts what \<open>r\<close> accepts after a leading \<open>c\<close>.
\<close>

fun nullable :: "regex \<Rightarrow> bool" where
  "nullable Never = False"
| "nullable Empty = True"
| "nullable (Chr c) = False"
| "nullable AnyChar = False"
| "nullable (Alt r s) = (nullable r \<or> nullable s)"
| "nullable (Seq r s) = (nullable r \<and> nullable s)"
| "nullable (Star r) = True"

fun deriv :: "char \<Rightarrow> regex \<Rightarrow> regex" where
  "deriv c Never = Never"
| "deriv c Empty = Never"
| "deriv c (Chr d) = (if c = d then Empty else Never)"
| "deriv c AnyChar = (if c = CHR 0x0A then Never else Empty)"
| "deriv c (Alt r s) = Alt (deriv c r) (deriv c s)"
| "deriv c (Seq r s) =
     (if nullable r then Alt (Seq (deriv c r) s) (deriv c s) else Seq (deriv c r) s)"
| "deriv c (Star r) = Seq (deriv c r) (Star r)"

text \<open>
  \<^verbatim>\<open>re.fullmatch\<close>: the whole string; \<^verbatim>\<open>re.match\<close>: some prefix of the string;
  \<^verbatim>\<open>re.search\<close>: some prefix of some suffix.
\<close>

fun re_fullmatch :: "regex \<Rightarrow> string \<Rightarrow> bool" where
  "re_fullmatch r [] = nullable r"
| "re_fullmatch r (c # cs) = re_fullmatch (deriv c r) cs"

fun re_match :: "regex \<Rightarrow> string \<Rightarrow> bool" where
  "re_match r [] = nullable r"
| "re_match r (c # cs) = (nullable r \<or> re_match (deriv c r) cs)"

fun re_search :: "regex \<Rightarrow> string \<Rightarrow> bool" where
  "re_search r [] = re_match r []"
| "re_search r (c # cs) = (re_match r (c # cs) \<or> re_search r cs)"

text \<open>
  Applying a pattern string: \<open>None\<close> when the pattern does not compile to an expression
  of the fragment.
\<close>

definition pattern_search :: "string \<Rightarrow> string \<Rightarrow> bool option" where
  "pattern_search pat s =
     (case re_compile pat of Compiled r \<Rightarrow> Some (re_search r s) | ReError e \<Rightarrow> None
      | Unsupported \<Rightarrow> None)"

definition pattern_match :: "string \<Rightarrow> string \<Rightarrow> bool option" where
  "pattern_match pat s =
     (case re_compile pat of Compiled r \<Rightarrow> Some (re_match r s) | ReError e \<Rightarrow> None
      | Unsupported \<Rightarrow> None)"

definition pattern_fullmatch :: "string \<Rightarrow> string \<Rightarrow> bool option" where
  "pattern_fullmatch pat s =
     (case re_compile pat of Compiled r \<Rightarrow> Some (re_fullmatch r s) | ReError e \<Rightarrow> None
      | Unsupported \<Rightarrow> None)"

text \<open>The three ways of applying a pattern, as a value.\<close>

datatype re_mode = Search | Match | Fullmatch

fun apply_pattern :: "re_mode \<Rightarrow> string \<Rightarrow> string \<Rightarrow> bool option" where
  "apply_pattern Search pat s = pattern_search pat s"
| "apply_pattern Match pat s = pattern_match pat s"
| "apply_pattern Fullmatch pat s = pattern_fullmatch pat s"

section \<open>Matching a file against a parser\<close>

text \<open>
  Modelled from the spec: the Matcher and the Pattern Rules (sections 4.1 to 4.3).  The
  code that applies the patterns of a parser to a file is not among the source files; only
  the declarations of the patterns and their defaults are (\<^verbatim>\<open>ParserEntryPoint\<close>,
  \<^verbatim>\<open>Parser\<close>).

  A candidate file is its path, the MIME type detected for it, its bytes and the codec
  that its extension or signature indicates, if any.  Detection, decompression, decoding
  and the reading of structured containers are external collaborators.  The spec fixes
  how a pattern is applied for the name (search) and for the text content (search); for
  the MIME type and for the binary header it says only that the pattern is applied, so
  the way of applying these two is a parameter as well.  \<open>import_class\<close> is the
  collaborator that \<^verbatim>\<open>create_matching_parser_interface\<close> calls: it gives the matcher
  of an instance of the named class, or \<open>None\<close> when the import or the construction
  raises.
\<close>

record candidate_file =
  file_path :: string
  mime :: string
  contents :: bytes
  compression :: "string option"

record collaborators =
  decompress :: "string \<Rightarrow> bytes \<Rightarrow> bytes option"
  decode :: "bytes \<Rightarrow> string"
  window :: nat
  structured :: "(string \<times> pyval) list \<Rightarrow> bytes \<Rightarrow> bool"
  mime_mode :: re_mode
  binary_header_mode :: re_mode
  import_class :: "string \<Rightarrow> (candidate_file \<Rightarrow> bool option) option"

text \<open>
  Modelled from the spec: the name pattern is applied to the base name of the file, which
  is what follows the last slash of its path.
\<close>

definition basename :: "string \<Rightarrow> string" where
  "basename p = rev (takeWhile (\<lambda>c. c \<noteq> CHR ''/'') (rev p))"

text \<open>
  Modelled from the spec: the exact binary header is searched in the file, at any offset.
  \<open>occurs_in h b\<close> says that the byte sequence \<open>h\<close> occurs somewhere in \<open>b\<close>.
\<close>

fun occurs_in :: "bytes \<Rightarrow> bytes \<Rightarrow> bool" where
  "occurs_in h [] = (h = [])"
| "occurs_in h (c # cs) = (take (length h) (c # cs) = h \<or> occurs_in h cs)"

text \<open>
  Modelled from the spec: a rule-set matches when all its clauses are true.  The clauses
  are evaluated in order, the cheap ones first, and the evaluation stops at the first
  clause that is false.  The verdict is \<open>None\<close> when a pattern that had to be
  applied is outside the modelled fragment of regular expressions.
\<close>

fun all_clauses :: "bool option list \<Rightarrow> bool option" where
  "all_clauses [] = Some True"
| "all_clauses (None # vs) = None"
| "all_clauses (Some False # vs) = Some False"
| "all_clauses (Some True # vs) = all_clauses vs"

text \<open>
  Modelled from the spec: the Decompression Adapter (section 4.2).  A file in a codec that
  the parser supports is decompressed before the content clauses are applied; \<open>None\<close>
  is a failed decompression.
\<close>

definition effective_contents ::
  "collaborators \<Rightarrow> string list \<Rightarrow> candidate_file \<Rightarrow> bytes option" where
  "effective_contents ext compressions f =
     (case compression f of
        None \<Rightarrow> Some (contents f)
      | Some codec \<Rightarrow>
          if codec \<in> set compressions then decompress ext codec (contents f)
          else Some (contents f))"

text \<open>
  Modelled from the spec: a clause on the content is true when its pattern is absent, and
  false when the pattern is present and the content could not be read.
\<close>

definition content_clause :: "'p option \<Rightarrow> bytes option \<Rightarrow> ('p \<Rightarrow> bytes \<Rightarrow> bool option) \<Rightarrow> bool option" where
  "content_clause pat data test =
     (case pat of
        None \<Rightarrow> Some True
      | Some p \<Rightarrow> (case data of None \<Rightarrow> Some False | Some b \<Rightarrow> test p b))"

text \<open>
  Modelled from the spec: a name or MIME pattern that is left at its default is always
  true (section 4.1: absent and default patterns are treated as always true); any other
  pattern is applied to the string.
\<close>

definition pattern_clause :: "re_mode \<Rightarrow> string \<Rightarrow> string \<Rightarrow> string \<Rightarrow> bool option" where
  "pattern_clause mode dflt pat s =
     (if pat = dflt then Some True else apply_pattern mode pat s)"

text \<open>
  Modelled from the spec: the six kinds of clause of section 4.1, in the order name, MIME
  type, binary header, binary header pattern, text content, structured content.  The
  name pattern is searched in the base name; the two regular expressions on the content
  see a leading window of it.  \<open>name_default\<close> and \<open>mime_default\<close> are the defaults of
  the class that the patterns come from.
\<close>

definition matches_clauses ::
  "collaborators \<Rightarrow> string \<Rightarrow> string \<Rightarrow> string \<Rightarrow> string \<Rightarrow> bytes option \<Rightarrow> bytes option
     \<Rightarrow> string option \<Rightarrow> (string \<times> pyval) list option \<Rightarrow> string list \<Rightarrow> candidate_file
     \<Rightarrow> bool option" where
  "matches_clauses ext name_default mime_default name_re mime_re binary_header
       binary_header_re contents_re contents_dict compressions f =
     (let data = effective_contents ext compressions f
      in all_clauses
           [ pattern_clause Search name_default name_re (basename (file_path f)),
             pattern_clause (mime_mode ext) mime_default mime_re (mime f),
             content_clause binary_header data (\<lambda>h b. Some (occurs_in h b)),
             content_clause binary_header_re data
               (\<lambda>pat b. apply_pattern (binary_header_mode ext) pat (take (window ext) b)),
             content_clause contents_re data
               (\<lambda>pat b. pattern_search pat (decode ext (take (window ext) b))),
             content_clause contents_dict data (\<lambda>d b. Some (structured ext d b)) ])"

text \<open>
  Modelled from the spec: the Matcher (section 4.3), for a parser entry point and for the
  patterns of a legacy parser plugin.
\<close>

definition matches :: "collaborators \<Rightarrow> parser_entry_point \<Rightarrow> candidate_file \<Rightarrow> bool option" where
  "matches ext p f =
     matches_clauses ext (mainfile_name_re ParserEntryPoint) (mainfile_mime_re ParserEntryPoint)
       (mainfile_name_re p) (mainfile_mime_re p)
       (mainfile_binary_header p) (mainfile_binary_header_re p) (mainfile_contents_re p)
       (mainfile_contents_dict p) (supported_compressions p) f"

definition matches_parser :: "collaborators \<Rightarrow> parser \<Rightarrow> candidate_file \<Rightarrow> bool option" where
  "matches_parser ext p f =
     matches_clauses ext (parser.mainfile_name_re (Parser [] [] []))
       (parser.mainfile_mime_re (Parser [] [] []))
       (parser.mainfile_name_re p) (parser.mainfile_mime_re p)
       (parser.mainfile_binary_header p) (parser.mainfile_binary_header_re p)
       (parser.mainfile_contents_re p) (parser.mainfile_contents_dict p)
       (parser.supported_compressions p) f"

text \<open>
  \<^verbatim>\<open>Parser.create_matching_parser_interface\<close>.  With \<^verbatim>\<open>parser_as_interface\<close> the
  class of the parser is imported and an instance of it does the matching; the patterns
  of the plugin take no part.  Otherwise a \<^verbatim>\<open>MatchingParserInterface\<close> is made from
  the fields of the plugin, less the seven that are deleted, none of which is a pattern.
\<close>

datatype parser_interface =
    ImportedClass "candidate_file \<Rightarrow> bool option"
  | MatchingParserInterface parser

definition create_matching_parser_interface ::
  "collaborators \<Rightarrow> parser \<Rightarrow> py_error + parser_interface" where
  "create_matching_parser_interface ext self =
     (if parser_as_interface self then
        (case import_class ext (parser_class_name self) of
           None \<Rightarrow> Inl (ModuleNotFoundError (parser_class_name self))
         | Some is_mainfile \<Rightarrow> Inr (ImportedClass is_mainfile))
      else Inr (MatchingParserInterface self))"

text \<open>
  Modelled from the spec: matching a file against the interface of a legacy parser; an
  imported class answers for itself.
\<close>

fun is_mainfile :: "collaborators \<Rightarrow> parser_interface \<Rightarrow> candidate_file \<Rightarrow> bool option" where
  "is_mainfile ext (ImportedClass own) f = own f"
| "is_mainfile ext (MatchingParserInterface p) f = matches_parser ext p f"

text \<open>
  A parser with no clauses set: every optional pattern is absent and the name and MIME
  patterns are the defaults of its class.
\<close>

definition no_clauses_set :: "parser_entry_point \<Rightarrow> bool" where
  "no_clauses_set p =
     (mainfile_contents_re p = None \<and> mainfile_binary_header p = None
      \<and> mainfile_binary_header_re p = None \<and> mainfile_contents_dict p = None
      \<and> mainfile_name_re p = mainfile_name_re ParserEntryPoint
      \<and> mainfile_mime_re p = mainfile_mime_re ParserEntryPoint)"


section \<open>Resolution\<close>

text \<open>
  Modelled from the spec: the Resolution Engine (section 4.4), which is not among the
  source files.  It takes the matcher as a parameter \<open>m\<close>, the registry as the list of
  rule-sets in insertion order and the directory as the list of its files.
  \<^enum> The registry is partitioned into non-alternative and alternative rule-sets.
  \<^enum> Each file goes to the first non-alternative rule-set that matches it, the rule-sets
    taken in ascending level, by a stable sort of the registry.
  \<^enum> When no file of the directory received a non-alternative match, a file goes to the
    first alternative rule-set that matches it, provided that no other rule-set matches
    any file of the directory.  Rule-sets are told apart by their identifier.
  \<^enum> Any other file is unmatched.
\<close>

datatype assignment = Assigned "string option" | Unmatched

text \<open>Modelled from the spec: ascending level, ties in registry order (step 2).\<close>

definition by_level :: "parser_entry_point list \<Rightarrow> parser_entry_point list" where
  "by_level rs = sort_key level rs"

text \<open>Modelled from the spec: the first non-alternative rule-set that matches (step 2).\<close>

definition non_alternative_match ::
  "(parser_entry_point \<Rightarrow> candidate_file \<Rightarrow> bool) \<Rightarrow> parser_entry_point list
     \<Rightarrow> candidate_file \<Rightarrow> parser_entry_point option" where
  "non_alternative_match m reg f =
     find (\<lambda>r. m r f) (by_level (filter (\<lambda>r. \<not> mainfile_alternative r) reg))"

text \<open>
  Modelled from the spec: the directory contains another successful match, that is, a
  rule-set other than \<open>r\<close> matches some file of the directory (step 3).
\<close>

definition other_match ::
  "(parser_entry_point \<Rightarrow> candidate_file \<Rightarrow> bool) \<Rightarrow> parser_entry_point list
     \<Rightarrow> candidate_file list \<Rightarrow> parser_entry_point \<Rightarrow> bool" where
  "other_match m reg files r =
     list_ex (\<lambda>r'. ep_id r' \<noteq> ep_id r \<and> list_ex (\<lambda>g. m r' g) files) reg"

text \<open>
  Modelled from the spec: the alternative rule-sets are tried only when no file of the
  directory received a non-alternative match, and a match of an alternative rule-set
  counts only when there is no other match in the directory (step 3).
\<close>

definition alternative_match ::
  "(parser_entry_point \<Rightarrow> candidate_file \<Rightarrow> bool) \<Rightarrow> parser_entry_point list
     \<Rightarrow> candidate_file list \<Rightarrow> candidate_file \<Rightarrow> parser_entry_point option" where
  "alternative_match m reg files f =
     (if list_ex (\<lambda>g. non_alternative_match m reg g \<noteq> None) files then None
      else find (\<lambda>r. m r f \<and> \<not> other_match m reg files r)
             (by_level (filter mainfile_alternative reg)))"

text \<open>
  Modelled from the spec: the rule-set that a file is assigned to, the non-alternative
  ones first (steps 2 to 4).
\<close>

definition winner ::
  "(parser_entry_point \<Rightarrow> candidate_file \<Rightarrow> bool) \<Rightarrow> parser_entry_point list
     \<Rightarrow> candidate_file list \<Rightarrow> candidate_file \<Rightarrow> parser_entry_point option" where
  "winner m reg files f =
     (case non_alternative_match m reg f of
        Some r \<Rightarrow> Some r
      | None \<Rightarrow> alternative_match m reg files f)"

text \<open>
  Modelled from the spec: the resolution result, from the path of each file of the
  directory to the identifier of its rule-set, or unmatched.
\<close>

definition resolve_file ::
  "(parser_entry_point \<Rightarrow> candidate_file \<Rightarrow> bool) \<Rightarrow> parser_entry_point list
     \<Rightarrow> candidate_file list \<Rightarrow> candidate_file \<Rightarrow> assignment" where
  "resolve_file m reg files f =
     (case winner m reg files f of Some r \<Rightarrow> Assigned (ep_id r) | None \<Rightarrow> Unmatched)"

definition resolve ::
  "(parser_entry_point \<Rightarrow> candidate_file \<Rightarrow> bool) \<Rightarrow> parser_entry_point list
     \<Rightarrow> candidate_file list \<Rightarrow> (string \<times> assignment) list" where
  "resolve m reg files = map (\<lambda>f. (file_path f, resolve_file m reg files f)) files"

text \<open>
  Example values: collaborators that decompress nothing, recognise no structure, import no
  class and search the patterns they are free to apply; a legacy parser plugin built from
  its required arguments alone; and a JSON file.
\<close>

definition example_collaborators :: collaborators where
  "example_collaborators =
     \<lparr> decompress = (\<lambda>codec b. None), decode = (\<lambda>b. b), window = 1024,
       structured = (\<lambda>d b. False), mime_mode = Search, binary_header_mode = Search,
       import_class = (\<lambda>cls. None) \<rparr>"

definition example_parser :: parser where
  "example_parser = Parser ''parsers/vasp'' ''electronicparsers'' ''electronicparsers.VASPParser''"

definition example_json :: candidate_file where
  "example_json =
     \<lparr> file_path = ''upload/run/results.json'', mime = ''application/json'',
       contents = ''{}'', compression = None \<rparr>"

text \<open>
  Example values for the resolution: a text file beside the JSON file, a parser for JSON
  files, an alternative parser without any clause, the matcher that the resolution is run
  with, and a parser of level 5 without any clause.
\<close>

definition example_text :: candidate_file where
  "example_text =
     \<lparr> file_path = ''upload/run/notes.txt'', mime = ''text/plain'',
       contents = ''notes'', compression = None \<rparr>"

definition json_parser :: parser_entry_point where
  "json_parser =
     ParserEntryPoint\<lparr>ep_id := Some ''parsers/json'', mainfile_mime_re := ''application/json''\<rparr>"

definition fallback_parser :: parser_entry_point where
  "fallback_parser =
     ParserEntryPoint\<lparr>ep_id := Some ''parsers/fallback'', mainfile_alternative := True\<rparr>"

definition example_matcher :: "parser_entry_point \<Rightarrow> candidate_file \<Rightarrow> bool" where
  "example_matcher p f = (matches example_collaborators p f = Some True)"

definition catch_all_parser :: parser_entry_point where
  "catch_all_parser = ParserEntryPoint\<lparr>ep_id := Some ''parsers/any'', level := 5\<rparr>"

section \<open>The package clean-up script\<close>

text \<open>
  \<^verbatim>\<open>scripts/cleanup_packages.py\<close>.  The table of packages is a list of rows; a row has
  a name and a version string, and whatever other columns the package API returns.
  The version library (\<^verbatim>\<open>packaging.version\<close>) is outside the file: \<open>parse\<close> gives
  the version object of a string, or \<open>None\<close> where \<^verbatim>\<open>version.parse\<close> raises
  \<^verbatim>\<open>InvalidVersion\<close>; version objects are linearly ordered and know whether they are a
  prerelease.
\<close>

record package_row =
  name :: string
  version :: string

record 'v version_lib =
  parse :: "string \<Rightarrow> 'v option"
  is_prerelease :: "'v \<Rightarrow> bool"

text \<open>\<^verbatim>\<open>group['parsed_version'] = group['version'].apply(version.parse)\<close>\<close>

fun parsed_version ::
  "'v version_lib \<Rightarrow> 'a package_row_scheme list \<Rightarrow> py_error + ('a package_row_scheme \<times> 'v) list" where
  "parsed_version lib [] = Inr []"
| "parsed_version lib (p # ps) =
     (case parse lib (version p) of
        None \<Rightarrow> Inl (InvalidVersion (version p))
      | Some v \<Rightarrow>
          (case parsed_version lib ps of
             Inl e \<Rightarrow> Inl e
           | Inr rows \<Rightarrow> Inr ((p, v) # rows)))"

text \<open>
  The body of the loop, for one group (\<open>grp\<close>).  \<^verbatim>\<open>sort_values(ascending=False)\<close> orders the
  rows by descending version, rows of equal version staying in the order of the table:
  pandas reverses the rows, sorts them in ascending order and reverses the result.
\<close>

definition dev_versions_to_delete ::
  "('v::linorder) version_lib \<Rightarrow> 'a package_row_scheme list
     \<Rightarrow> py_error + ('a package_row_scheme \<times> 'v) list" where
  "dev_versions_to_delete lib grp =
     (case parsed_version lib grp of
        Inl e \<Rightarrow> Inl e
      | Inr rows \<Rightarrow>
          let sorted_group = rev (sort_key snd (rev rows));
              latest_non_dev = filter (\<lambda>(p, v). \<not> is_prerelease lib v) sorted_group
          in if length latest_non_dev < 2 then Inr []
             else
               let second_latest_non_dev_version = snd (latest_non_dev ! 1)
               in Inr (filter (\<lambda>(p, v). v < second_latest_non_dev_version \<and> is_prerelease lib v)
                         sorted_group))"

text \<open>The loop over the groups, \<open>packages_to_delete\<close> being the accumulator.\<close>

fun for_groups ::
  "('v::linorder) version_lib \<Rightarrow> 'a package_row_scheme list \<Rightarrow> string list
     \<Rightarrow> ('a package_row_scheme \<times> 'v) list \<Rightarrow> py_error + ('a package_row_scheme \<times> 'v) list" where
  "for_groups lib packages [] packages_to_delete = Inr packages_to_delete"
| "for_groups lib packages (n # ns) packages_to_delete =
     (case dev_versions_to_delete lib (filter (\<lambda>p. name p = n) packages) of
        Inl e \<Rightarrow> Inl e
      | Inr dev \<Rightarrow> for_groups lib packages ns (packages_to_delete @ dev))"

text \<open>
  \<^verbatim>\<open>packages.groupby('name')\<close> yields the groups in ascending order of the name.  A
  table made from an empty list of packages has no column \<^verbatim>\<open>name\<close>, and
  \<^verbatim>\<open>groupby\<close> raises \<^verbatim>\<open>KeyError\<close>.  A returned record is the row together with its
  parsed version.
\<close>

definition find_packages_to_delete ::
  "('v::linorder) version_lib \<Rightarrow> 'a package_row_scheme list
     \<Rightarrow> py_error + ('a package_row_scheme \<times> 'v) list" where
  "find_packages_to_delete lib packages =
     (if packages = [] then Inl (KeyError (Some ''name''))
      else for_groups lib packages (sort (remdups (map name packages))) [])"

text \<open>
  The wording of the claim: the non-prerelease versions among the packages of one name,
  latest first, each version once, and the second-latest of them, if there are two.
\<close>

definition non_prerelease_versions ::
  "('v::linorder) version_lib \<Rightarrow> 'a package_row_scheme list \<Rightarrow> string \<Rightarrow> 'v list" where
  "non_prerelease_versions lib packages n =
     rev (sort (remdups (filter (\<lambda>v. \<not> is_prerelease lib v)
       (List.map_filter (\<lambda>p. if name p = n then parse lib (version p) else None) packages))))"

definition second_latest_non_prerelease ::
  "('v::linorder) version_lib \<Rightarrow> 'a package_row_scheme list \<Rightarrow> string \<Rightarrow> 'v option" where
  "second_latest_non_prerelease lib packages n =
     (case non_prerelease_versions lib packages n of
        v1 # v2 # vs \<Rightarrow> Some v2
      | _ \<Rightarrow> None)"

text \<open>
  The same by rows: the versions of the non-prerelease rows of one name, latest first, a
  version standing once for each row that carries it, and the version of the second row.
\<close>

definition non_prerelease_rows ::
  "('v::linorder) version_lib \<Rightarrow> 'a package_row_scheme list \<Rightarrow> string \<Rightarrow> 'v list" where
  "non_prerelease_rows lib packages n =
     rev (sort (filter (\<lambda>v. \<not> is_prerelease lib v)
       (List.map_filter (\<lambda>p. if name p = n then parse lib (version p) else None) packages)))"

definition second_non_prerelease_row ::
  "('v::linorder) version_lib \<Rightarrow> 'a package_row_scheme list \<Rightarrow> string \<Rightarrow> 'v option" where
  "second_non_prerelease_row lib packages n =
     (case non_prerelease_rows lib packages n of
        v1 # v2 # vs \<Rightarrow> Some v2
      | _ \<Rightarrow> None)"




section \<open>Properties of the example-upload validator\<close>

text \<open>
  Read with "provided" as "passed with a value other than \<^verbatim>\<open>None\<close>", claim C9 fails
  on the empty string: the validator tests truthiness, so an empty \<^verbatim>\<open>path\<close> next to a
  \<^verbatim>\<open>url\<close> passes although both are provided.
\<close>

theorem validate_both_provided_counterexample:
  "provided [''path'' \<mapsto> PStr '''', ''url'' \<mapsto> PStr ''https://example.org/upload.zip''] ''path''
   \<and> provided [''path'' \<mapsto> PStr '''', ''url'' \<mapsto> PStr ''https://example.org/upload.zip''] ''url''
   \<and> validate [''path'' \<mapsto> PStr '''', ''url'' \<mapsto> PStr ''https://example.org/upload.zip'']
       = Inr [''path'' \<mapsto> PStr '''', ''url'' \<mapsto> PStr ''https://example.org/upload.zip'']"
  by (simp add: provided_def validate_def dict_get_def)

text \<open>
  Claim C9, amended.  The validator raises \<^verbatim>\<open>ValueError\<close> if and only if
  \<^verbatim>\<open>path\<close> and \<^verbatim>\<open>url\<close> are both truthy (present, not \<^verbatim>\<open>None\<close> and not empty), or
  none of \<^verbatim>\<open>path\<close>, \<^verbatim>\<open>url\<close> and \<^verbatim>\<open>local_path\<close> is truthy.  When it does not
  raise it returns the values unchanged, at least one of the three is truthy, and
  \<^verbatim>\<open>path\<close> and \<^verbatim>\<open>url\<close> are not both truthy.
\<close>

theorem validate_raises_iff:
  "(isl (validate values) \<longleftrightarrow>
      (truthy (dict_get values ''path'') \<and> truthy (dict_get values ''url''))
      \<or> (\<not> truthy (dict_get values ''path'') \<and> \<not> truthy (dict_get values ''url'')
          \<and> \<not> truthy (dict_get values ''local_path'')))
   \<and> (\<not> isl (validate values) \<longrightarrow>
        validate values = Inr values
        \<and> (truthy (dict_get values ''path'') \<or> truthy (dict_get values ''url'')
            \<or> truthy (dict_get values ''local_path''))
        \<and> \<not> (truthy (dict_get values ''path'') \<and> truthy (dict_get values ''url'')))"
  by (auto simp: validate_def Let_def)

theorem validate_raises_iff_witness:
  "\<not> isl (validate [''url'' \<mapsto> PStr ''https://example.org/upload.zip''])
   \<and> validate [''url'' \<mapsto> PStr ''https://example.org/upload.zip'']
       = Inr [''url'' \<mapsto> PStr ''https://example.org/upload.zip'']
   \<and> isl (validate [''path'' \<mapsto> PStr ''example_uploads/a'',
                     ''url'' \<mapsto> PStr ''https://example.org/upload.zip''])
   \<and> isl (validate Map.empty)"
  using validate_raises_iff [of "[''url'' \<mapsto> PStr ''https://example.org/upload.zip'']"]
        validate_raises_iff [of "[''path'' \<mapsto> PStr ''example_uploads/a'',
                                  ''url'' \<mapsto> PStr ''https://example.org/upload.zip'']"]
        validate_raises_iff [of "Map.empty"]
  by (simp add: dict_get_def)

section \<open>Properties of the safe serialisation\<close>

lemma map_fst_fields:
  "map fst (ParserEntryPoint_fields p) =
     [''id'', ''entry_point_type'', ''name'', ''description'', ''plugin_package'',
      ''level'', ''aliases'', ''mainfile_contents_re'', ''mainfile_name_re'', ''mainfile_mime_re'',
      ''mainfile_binary_header'', ''mainfile_binary_header_re'',
      ''mainfile_alternative'', ''mainfile_contents_dict'', ''supported_compressions'']"
  by (simp add: ParserEntryPoint_fields_def)

lemma dict_include_keys: "fst ` set (dict_include keys b kvs) \<subseteq> set keys"
  by (auto simp: dict_include_def)

lemma dict_include_append:
  "dict_include keys b (xs @ ys) = dict_include keys b xs @ dict_include keys b ys"
  by (simp add: dict_include_def)

lemma dict_include_excluded:
  "k \<notin> set keys \<Longrightarrow> dict_include keys b ((k, v) # kvs) = dict_include keys b kvs"
  by (simp add: dict_include_def)

lemma fields_split:
  "ParserEntryPoint_fields p =
     take 10 (ParserEntryPoint_fields p)
     @ (''mainfile_binary_header'', of_optional PBytes (mainfile_binary_header p))
     # (''mainfile_binary_header_re'', of_optional PBytes (mainfile_binary_header_re p))
     # drop 12 (ParserEntryPoint_fields p)"
  by (simp add: ParserEntryPoint_fields_def)

lemma fields_outside_binary:
  "take 10 (ParserEntryPoint_fields (p\<lparr>mainfile_binary_header := h, mainfile_binary_header_re := r\<rparr>))
     = take 10 (ParserEntryPoint_fields p)"
  "drop 12 (ParserEntryPoint_fields (p\<lparr>mainfile_binary_header := h, mainfile_binary_header_re := r\<rparr>))
     = drop 12 (ParserEntryPoint_fields p)"
  by (simp_all add: ParserEntryPoint_fields_def)

lemma dict_safe_split:
  "dict_safe p =
     dict_include
       (removeAll ''mainfile_binary_header'' (removeAll ''mainfile_binary_header_re''
          (map fst (ParserEntryPoint_fields p)))) True (take 10 (ParserEntryPoint_fields p))
     @ dict_include
       (removeAll ''mainfile_binary_header'' (removeAll ''mainfile_binary_header_re''
          (map fst (ParserEntryPoint_fields p)))) True (drop 12 (ParserEntryPoint_fields p))"
proof -
  let ?keys = "removeAll ''mainfile_binary_header'' (removeAll ''mainfile_binary_header_re''
          (map fst (ParserEntryPoint_fields p)))"
  have h: "''mainfile_binary_header'' \<notin> set ?keys" by simp
  have r: "''mainfile_binary_header_re'' \<notin> set ?keys" by simp
  have "dict_safe p = dict_include ?keys True (ParserEntryPoint_fields p)"
    by (simp add: dict_safe_def Let_def)
  also have "\<dots> = dict_include ?keys True (take 10 (ParserEntryPoint_fields p)
     @ (''mainfile_binary_header'', of_optional PBytes (mainfile_binary_header p))
     # (''mainfile_binary_header_re'', of_optional PBytes (mainfile_binary_header_re p))
     # drop 12 (ParserEntryPoint_fields p))"
    using fields_split [of p] by simp
  also have "\<dots> = dict_include ?keys True (take 10 (ParserEntryPoint_fields p))
     @ dict_include ?keys True (drop 12 (ParserEntryPoint_fields p))"
    by (simp only: dict_include_append dict_include_excluded [OF h] dict_include_excluded [OF r])
  finally show ?thesis .
qed

text \<open>
  Claim C8.  The safe serialisation of a parser entry point never has the keys
  \<^verbatim>\<open>mainfile_binary_header\<close> and \<^verbatim>\<open>mainfile_binary_header_re\<close>, and it does not
  depend on the values of these two fields: two entry points that differ only there have
  the same serialisation.
\<close>

theorem dict_safe_hides_binary_fields:
  "''mainfile_binary_header'' \<notin> fst ` set (dict_safe p)
   \<and> ''mainfile_binary_header_re'' \<notin> fst ` set (dict_safe p)
   \<and> dict_safe (p\<lparr>mainfile_binary_header := h, mainfile_binary_header_re := r\<rparr>) = dict_safe p"
proof -
  let ?keys = "removeAll ''mainfile_binary_header'' (removeAll ''mainfile_binary_header_re''
          (map fst (ParserEntryPoint_fields p)))"
  have "fst ` set (dict_safe p) \<subseteq> set ?keys"
    unfolding dict_safe_def Let_def by (rule dict_include_keys)
  then have 1: "''mainfile_binary_header'' \<notin> fst ` set (dict_safe p)"
    and 2: "''mainfile_binary_header_re'' \<notin> fst ` set (dict_safe p)"
    by auto
  have 3: "dict_safe (p\<lparr>mainfile_binary_header := h, mainfile_binary_header_re := r\<rparr>) = dict_safe p"
    unfolding dict_safe_split fields_outside_binary map_fst_fields ..
  from 1 2 3 show ?thesis by simp
qed

text \<open>The serialisation of an entry point with every field at its default.\<close>

lemma dict_safe_default:
  "dict_safe ParserEntryPoint
     = [(''entry_point_type'', PStr ''parser''), (''level'', PInt 0), (''aliases'', PList []),
        (''mainfile_name_re'', PStr ''.*''), (''mainfile_mime_re'', PStr ''.*''),
        (''mainfile_alternative'', PBool False), (''supported_compressions'', PList [])]"
  by (simp add: dict_safe_def dict_include_def ParserEntryPoint_fields_def ParserEntryPoint_def
        of_optional_def Let_def)

theorem dict_safe_hides_binary_fields_witness:
  "dict_safe (ParserEntryPoint\<lparr>mainfile_binary_header := Some ''MAGIC'',
       mainfile_binary_header_re := Some ''MAG.*''\<rparr>)
     = [(''entry_point_type'', PStr ''parser''), (''level'', PInt 0), (''aliases'', PList []),
        (''mainfile_name_re'', PStr ''.*''), (''mainfile_mime_re'', PStr ''.*''),
        (''mainfile_alternative'', PBool False), (''supported_compressions'', PList [])]"
  using dict_safe_hides_binary_fields
         [where p = ParserEntryPoint and h = "Some ''MAGIC''" and r = "Some ''MAG.*''"]
  by (simp only: dict_safe_default)

section \<open>Properties of adding and removing plugins\<close>

lemma map_of_dict_set: "map_of (dict_set k v d) k = Some v"
  by (induction d) auto

lemma dict_set_present: "(k, v) \<in> set (dict_set k v d)"
  by (induction d) auto



text \<open>
  A schema plugin is stored under its key before its package is imported; when the import
  and the two calls after it do not raise, \<^verbatim>\<open>add_plugin\<close> returns.
\<close>

lemma add_plugin_schema_stored:
  "map_of (options (snd (add_plugin env (SchemaPlugin p) s))) (key p) = Some (SchemaPlugin p)"
  by (simp add: add_plugin_def reload_and_return_def Let_def map_of_dict_set
        split: sum.splits option.splits prod.splits)

lemma add_plugin_example:
  "add_plugin example_environment (SchemaPlugin example_schema) initial_state
     = (Returned, state_with_example)"
  by (simp add: add_plugin_def import_m_package_def reload_and_return_def
        example_environment_def example_schema_def initial_state_def state_with_example_def)

text \<open>
  Claim C6 fails on the code where it says that no exception escapes: removing a plugin
  whose key is not among the options raises \<^verbatim>\<open>KeyError\<close>, since only the removal
  from \<^verbatim>\<open>sys.path\<close> is guarded.
\<close>

theorem remove_plugin_absent_counterexample:
  "fst (remove_plugin example_environment (SchemaPlugin other_schema) state_with_example)
     = Raised (KeyError (Some ''schema/other''))"
  by (simp add: remove_plugin_def other_schema_def example_schema_def state_with_example_def)

text \<open>
  Claim C6, amended.  Removing a plugin whose key is not among the options is reported to
  the caller as a \<^verbatim>\<open>KeyError\<close> for that key, and the failed removal leaves the
  options and the package registry as they were.
\<close>

theorem remove_plugin_absent:
  assumes "getattr_key plugin = Inr k" and "k \<notin> fst ` set (options s)"
  shows "fst (remove_plugin env plugin s) = Raised (KeyError k)
         \<and> options (snd (remove_plugin env plugin s)) = options s
         \<and> registry (snd (remove_plugin env plugin s)) = registry s"
  using assms by (cases plugin) (simp_all add: remove_plugin_def Let_def)

theorem remove_plugin_absent_witness:
  "getattr_key (SchemaPlugin other_schema) = Inr (Some ''schema/other'')
   \<and> Some ''schema/other'' \<notin> fst ` set (options state_with_example)
   \<and> fst (remove_plugin example_environment (SchemaPlugin other_schema) state_with_example)
       = Raised (KeyError (Some ''schema/other''))
   \<and> options (snd (remove_plugin example_environment (SchemaPlugin other_schema)
         state_with_example))
       = [(Some ''schema/example'', SchemaPlugin example_schema)]"
proof -
  have k: "getattr_key (SchemaPlugin other_schema) = Inr (Some ''schema/other'')"
    by (simp add: other_schema_def)
  have absent: "Some ''schema/other'' \<notin> fst ` set (options state_with_example)"
    by (simp add: state_with_example_def)
  have "options state_with_example = [(Some ''schema/example'', SchemaPlugin example_schema)]"
    by (simp add: state_with_example_def)
  with remove_plugin_absent [OF k absent, of example_environment] k absent show ?thesis
    by simp
qed

text \<open>
  A plugin whose key is among the options is taken out of them, whatever happens after
  the deletion.
\<close>

lemma remove_plugin_present:
  assumes "getattr_key plugin = Inr k" and "k \<in> fst ` set (options s)"
  shows "k \<notin> fst ` set (options (snd (remove_plugin env plugin s)))"
  using assms
  by (cases plugin)
     (auto simp: remove_plugin_def reload_and_return_def Let_def dict_del_def
        split: sum.splits option.splits)

lemma remove_plugin_example:
  "remove_plugin example_environment (SchemaPlugin example_schema) state_with_example
     = (Returned, initial_state)"
  by (simp add: remove_plugin_def import_m_package_def reload_and_return_def dict_del_def
        example_environment_def example_schema_def initial_state_def state_with_example_def)

section \<open>Properties of the default patterns and of the matcher\<close>

lemma re_match_nullable: "nullable r \<Longrightarrow> re_match r s"
  by (cases s) auto

lemma re_search_match: "re_match r s \<Longrightarrow> re_search r s"
  by (cases s) auto

lemma compile_dot_star: "re_compile ''.*'' = Compiled (Seq (Star AnyChar) Empty)"
  by (simp add: special_def atom_def)

lemma compile_text_star:
  "re_compile ''text/.*'' =
     Compiled (Seq (Chr CHR ''t'') (Seq (Chr CHR ''e'') (Seq (Chr CHR ''x'') (Seq (Chr CHR ''t'')
       (Seq (Chr CHR ''/'') (Seq (Star AnyChar) Empty))))))"
  by (simp add: special_def atom_def then_compiled_def)

text \<open>From here on the two default patterns are used through their compiled form.\<close>

declare re_compile.simps [simp del]

lemma dot_star_matches: "pattern_search ''.*'' s = Some True" "pattern_match ''.*'' s = Some True"
  by (simp_all add: pattern_search_def pattern_match_def compile_dot_star re_match_nullable
        re_search_match)

lemma text_star_matches_text:
  "pattern_match ''text/.*'' (''text/'' @ s) = Some True"
  "pattern_search ''text/.*'' (''text/'' @ s) = Some True"
proof -
  have "re_match (Seq (Chr CHR ''t'') (Seq (Chr CHR ''e'') (Seq (Chr CHR ''x'') (Seq (Chr CHR ''t'')
       (Seq (Chr CHR ''/'') (Seq (Star AnyChar) Empty)))))) (''text/'' @ s)"
    by (simp add: re_match_nullable)
  then show "pattern_match ''text/.*'' (''text/'' @ s) = Some True"
    and "pattern_search ''text/.*'' (''text/'' @ s) = Some True"
    by (simp_all only: pattern_search_def pattern_match_def compile_text_star compiled.case
          re_search_match)
qed

lemma text_star_rejects_json:
  "pattern_search ''text/.*'' ''application/json'' = Some False"
  "pattern_match ''text/.*'' ''application/json'' = Some False"
  "pattern_fullmatch ''text/.*'' ''application/json'' = Some False"
  by (simp_all add: pattern_search_def pattern_match_def pattern_fullmatch_def
        compile_text_star)

text \<open>
  The pattern \<^verbatim>\<open>text/.*\<close>, searched in a string, is found exactly when \<^verbatim>\<open>text/\<close>
  occurs in the string.
\<close>

lemma re_match_Alt: "re_match (Alt a b) s = (re_match a s \<or> re_match b s)"
  by (induction s arbitrary: a b) auto

lemma re_match_Seq_Never: "\<not> re_match (Seq Never r) s"
  by (induction s) auto

lemma re_match_Seq_Empty: "re_match (Seq Empty r) s = re_match r s"
  by (cases s) (auto simp: re_match_Alt re_match_Seq_Never)

lemma re_match_Seq_Chr:
  "re_match (Seq (Chr c) r) s = (\<exists>t. s = c # t \<and> re_match r t)"
  by (cases s) (auto simp: re_match_Seq_Empty re_match_Seq_Never)

lemma re_match_text_star:
  "re_match (Seq (Chr CHR ''t'') (Seq (Chr CHR ''e'') (Seq (Chr CHR ''x'') (Seq (Chr CHR ''t'')
       (Seq (Chr CHR ''/'') (Seq (Star AnyChar) Empty)))))) s = (\<exists>t. s = ''text/'' @ t)"
proof -
  have tail: "re_match (Seq (Star AnyChar) Empty) t" for t
    by (rule re_match_nullable) simp
  show ?thesis
    by (auto simp: re_match_Seq_Chr tail)
qed

lemma take_is_prefix: "(take (length h) t = h) = (\<exists>u. t = h @ u)"
  by (metis append_eq_conv_conj append_take_drop_id)

lemma re_search_occurs:
  "(\<And>t. re_match r t = (\<exists>u. t = h @ u)) \<Longrightarrow> h \<noteq> [] \<Longrightarrow> re_search r s = occurs_in h s"
  by (induction s) (simp_all add: take_is_prefix del: re_match.simps)

lemma text_star_search: "pattern_search ''text/.*'' s = Some (occurs_in ''text/'' s)"
proof -
  have "re_search (Seq (Chr CHR ''t'') (Seq (Chr CHR ''e'') (Seq (Chr CHR ''x'') (Seq (Chr CHR ''t'')
       (Seq (Chr CHR ''/'') (Seq (Star AnyChar) Empty)))))) s = occurs_in ''text/'' s"
    by (rule re_search_occurs) (simp_all only: re_match_text_star, simp)
  then show ?thesis
    by (simp only: pattern_search_def compile_text_star compiled.case)
qed

text \<open>
  Claim C4 fails for the legacy \<^verbatim>\<open>Parser\<close> model, whose default MIME pattern is
  \<^verbatim>\<open>text/.*\<close>: the pattern of a parser built without a MIME pattern does not match
  the MIME type \<^verbatim>\<open>application/json\<close>, whether it is searched, matched at the start or
  matched against the whole string.
\<close>

theorem parser_default_mime_counterexample:
  "pattern_search (parser.mainfile_mime_re example_parser) ''application/json'' = Some False
   \<and> pattern_match (parser.mainfile_mime_re example_parser) ''application/json'' = Some False
   \<and> pattern_fullmatch (parser.mainfile_mime_re example_parser) ''application/json''
       = Some False"
  by (simp add: example_parser_def Parser_def text_star_rejects_json)

text \<open>
  Claim C4, amended.  For every \<^verbatim>\<open>ParserEntryPoint\<close> whose MIME pattern is left at its
  default, the pattern matches every MIME-type string, searched or matched at the start.
\<close>

theorem entry_point_default_mime_matches_all:
  assumes "mainfile_mime_re p = mainfile_mime_re ParserEntryPoint"
  shows "pattern_search (mainfile_mime_re p) s = Some True
         \<and> pattern_match (mainfile_mime_re p) s = Some True"
  using assms by (simp add: ParserEntryPoint_def dot_star_matches)

theorem entry_point_default_mime_matches_all_witness:
  "pattern_search (mainfile_mime_re ParserEntryPoint) ''application/json'' = Some True
   \<and> pattern_match (mainfile_mime_re ParserEntryPoint) ''application/json'' = Some True"
  using entry_point_default_mime_matches_all [of ParserEntryPoint "''application/json''"]
  by simp

lemma all_clauses_Cons:
  "all_clauses (v # vs) =
     (case v of None \<Rightarrow> None | Some b \<Rightarrow> if b then all_clauses vs else Some False)"
  by (cases "v # vs" rule: all_clauses.cases) simp_all

lemma all_clauses_single: "all_clauses [v] = v"
  by (simp add: all_clauses_Cons split: option.splits)

lemma content_clause_absent: "content_clause None data test = Some True"
  by (simp add: content_clause_def)

lemma pattern_clause_default: "pattern_clause mode dflt dflt s = Some True"
  by (simp add: pattern_clause_def)

lemma matches_clauses_no_content:
  "matches_clauses ext name_default mime_default name_re mime_re None None None None
       compressions f
     = all_clauses [pattern_clause Search name_default name_re (basename (file_path f)),
                    pattern_clause (mime_mode ext) mime_default mime_re (mime f)]"
proof -
  have "all_clauses [a, b, Some True, Some True, Some True, Some True] = all_clauses [a, b]"
    for a b :: "bool option"
    by (simp add: all_clauses_Cons split: option.splits)
  then show ?thesis
    by (simp add: matches_clauses_def content_clause_absent Let_def)
qed

lemma entry_point_catch_all: "no_clauses_set p \<Longrightarrow> matches ext p f = Some True"
  by (simp add: no_clauses_set_def matches_def matches_clauses_no_content
        pattern_clause_default)




text \<open>
  For the entry point the default clause and the regular expression agree: \<^verbatim>\<open>.*\<close>,
  applied as a pattern, is found in every string (\<open>dot_star_matches\<close>).  With
  \<^verbatim>\<open>parser_as_interface\<close> the verdict is that of the imported class, whatever the
  patterns of the plugin are.
\<close>

lemma parser_as_interface_own_verdict:
  "parser_as_interface q \<Longrightarrow> import_class ext (parser_class_name q) = Some own \<Longrightarrow>
     create_matching_parser_interface ext q = Inr (ImportedClass own)
     \<and> is_mainfile ext (ImportedClass own) f = own f"
  by (simp add: create_matching_parser_interface_def)

section \<open>Properties of the resolution\<close>

lemma find_sorted_least:
  "sorted (map k ys) \<Longrightarrow> find P ys = Some x \<Longrightarrow> y \<in> set ys \<Longrightarrow> P y \<Longrightarrow> k x \<le> k y"
  by (induction ys) (auto split: if_splits)

lemma find_conj: "find P ys = Some x \<Longrightarrow> Q x \<Longrightarrow> find (\<lambda>y. P y \<and> Q y) ys = Some x"
  by (induction ys) (auto split: if_splits)

lemma find_filter: "find P (filter Q ys) = find (\<lambda>y. P y \<and> Q y) ys"
  by (induction ys) auto

lemma find_in_set: "find P ys = Some x \<Longrightarrow> x \<in> set ys \<and> P x"
  by (induction ys) (auto split: if_splits)

lemma find_sort_key_stable:
  "find (\<lambda>y. P y \<and> k y = c) (sort_key k xs) = find (\<lambda>y. P y \<and> k y = c) xs"
proof -
  have "find (\<lambda>y. P y \<and> k y = c) (sort_key k xs) = find P (filter (\<lambda>y. k y = c) (sort_key k xs))"
    by (simp add: find_filter)
  also have "\<dots> = find P (filter (\<lambda>y. k y = c) xs)"
    by (simp only: sort_key_stable)
  also have "\<dots> = find (\<lambda>y. P y \<and> k y = c) xs"
    by (simp add: find_filter)
  finally show ?thesis .
qed

lemma find_sort_key_first:
  assumes "find P (sort_key k xs) = Some x"
  shows "x \<in> set xs" and "P x" and "\<forall>y \<in> set xs. P y \<longrightarrow> k x \<le> k y"
    and "find (\<lambda>y. P y \<and> k y = k x) xs = Some x"
proof -
  from find_in_set [OF assms] show "x \<in> set xs" and "P x" by simp_all
  show "\<forall>y \<in> set xs. P y \<longrightarrow> k x \<le> k y"
    using find_sorted_least [OF sorted_sort_key assms] by simp
  from find_conj [OF assms, of "\<lambda>y. k y = k x"]
  show "find (\<lambda>y. P y \<and> k y = k x) xs = Some x"
    by (simp add: find_sort_key_stable)
qed

lemma non_alternative_only:
  "\<forall>r \<in> set reg. \<not> mainfile_alternative r \<Longrightarrow>
     winner m reg files f = find (\<lambda>r. m r f) (sort_key level reg)"
proof -
  assume a: "\<forall>r \<in> set reg. \<not> mainfile_alternative r"
  then have "filter (\<lambda>r. \<not> mainfile_alternative r) reg = reg"
    and "filter mainfile_alternative reg = []"
    by (simp_all add: filter_id_conv filter_empty_conv)
  then show ?thesis
    by (simp add: winner_def non_alternative_match_def alternative_match_def by_level_def
          split: option.splits)
qed

text \<open>
  Claim C2.  With a registry of non-alternative rule-sets, a file goes to the first rule-set
  that matches it in ascending order of level: the winner matches the file, no matching
  rule-set has a smaller level, and among the matching rule-sets of the winner's level
  the winner is the first in the registry; a file is left without a winner only when no
  rule-set matches it.  Of two matching rule-sets of levels 0 and 5, in either order of
  insertion, the one of level 0 wins; of two matching rule-sets of the same level,
  inserted as \<open>[x, y]\<close>, \<open>x\<close> wins.
\<close>

theorem first_match_by_level:
  assumes "\<forall>r \<in> set reg. \<not> mainfile_alternative r"
  shows "(winner m reg files f = Some r \<longrightarrow>
            r \<in> set reg \<and> m r f
            \<and> (\<forall>r' \<in> set reg. m r' f \<longrightarrow> level r \<le> level r')
            \<and> find (\<lambda>r'. m r' f \<and> level r' = level r) reg = Some r)
         \<and> (winner m reg files f = None \<longrightarrow> (\<forall>r' \<in> set reg. \<not> m r' f))
         \<and> (reg = [r0, r5] \<or> reg = [r5, r0] \<longrightarrow> level r0 = 0 \<longrightarrow> level r5 = 5 \<longrightarrow>
              m r0 f \<longrightarrow> m r5 f \<longrightarrow> resolve_file m reg files f = Assigned (ep_id r0))
         \<and> (reg = [x, y] \<longrightarrow> level x = level y \<longrightarrow> m x f \<longrightarrow> m y f \<longrightarrow>
              resolve_file m reg files f = Assigned (ep_id x))"
proof (intro conjI impI)
  note w = non_alternative_only [OF assms, of m files f]
  {
    assume "winner m reg files f = Some r"
    with w have found: "find (\<lambda>r. m r f) (sort_key level reg) = Some r" by simp
    from find_sort_key_first [OF found]
    show "r \<in> set reg" and "m r f" and "\<forall>r' \<in> set reg. m r' f \<longrightarrow> level r \<le> level r'"
      and "find (\<lambda>r'. m r' f \<and> level r' = level r) reg = Some r"
      by simp_all
  }
  {
    assume "winner m reg files f = None"
    with w have "find (\<lambda>r. m r f) (sort_key level reg) = None" by simp
    then show "\<forall>r' \<in> set reg. \<not> m r' f" by (simp add: find_None_iff)
  }
  {
    assume "reg = [r0, r5] \<or> reg = [r5, r0]" "level r0 = 0" "level r5 = 5" "m r0 f" "m r5 f"
    with w show "resolve_file m reg files f = Assigned (ep_id r0)"
      by (auto simp: resolve_file_def)
  }
  {
    assume "reg = [x, y]" "level x = level y" "m x f" "m y f"
    with w show "resolve_file m reg files f = Assigned (ep_id x)"
      by (auto simp: resolve_file_def)
  }
qed

lemma winner_alternative:
  assumes "winner m reg files f = Some r" and "mainfile_alternative r"
  shows "non_alternative_match m reg f = None"
    and "\<not> list_ex (\<lambda>g. non_alternative_match m reg g \<noteq> None) files"
    and "m r f" and "r \<in> set reg" and "\<not> other_match m reg files r"
proof -
  have "non_alternative_match m reg f \<noteq> Some r"
  proof
    assume "non_alternative_match m reg f = Some r"
    from find_in_set [OF this [unfolded non_alternative_match_def]]
    have "\<not> mainfile_alternative r" by (simp add: by_level_def)
    with assms(2) show False by simp
  qed
  with assms(1) show none: "non_alternative_match m reg f = None"
    by (auto simp: winner_def split: option.splits)
  with assms(1) have alt: "alternative_match m reg files f = Some r"
    by (simp add: winner_def)
  then show quiet: "\<not> list_ex (\<lambda>g. non_alternative_match m reg g \<noteq> None) files"
    by (auto simp: alternative_match_def split: if_splits)
  with alt have "find (\<lambda>r. m r f \<and> \<not> other_match m reg files r)
      (by_level (filter mainfile_alternative reg)) = Some r"
    by (simp add: alternative_match_def)
  from find_in_set [OF this]
  show "m r f" and "r \<in> set reg" and "\<not> other_match m reg files r"
    by (simp_all add: by_level_def)
qed

text \<open>
  Claim C1.  When the rule-set that wins a file is an alternative one, no other rule-set
  of the registry, of whatever level, matches any file of the directory.  In particular,
  with the files \<open>a\<close> and \<open>b\<close>, a non-alternative rule-set \<open>r1\<close> that matches \<open>a\<close>
  (and not \<open>b\<close>) and an alternative rule-set \<open>r2\<close> that matches \<open>b\<close>, the resolution
  assigns \<open>a\<close> to \<open>r1\<close> and leaves \<open>b\<close> unmatched.
\<close>

theorem alternative_match_exclusive:
  "(winner m reg files f = Some r \<longrightarrow> mainfile_alternative r \<longrightarrow>
      (\<forall>r' \<in> set reg. ep_id r' \<noteq> ep_id r \<longrightarrow> (\<forall>g \<in> set files. \<not> m r' g)))
   \<and> (\<not> mainfile_alternative r1 \<longrightarrow> mainfile_alternative r2 \<longrightarrow> ep_id r1 \<noteq> ep_id r2 \<longrightarrow>
        m r1 a \<longrightarrow> \<not> m r1 b \<longrightarrow> m r2 b \<longrightarrow>
        resolve m [r1, r2] [a, b] = [(file_path a, Assigned (ep_id r1)), (file_path b, Unmatched)])"
proof (intro conjI impI)
  assume "winner m reg files f = Some r" and "mainfile_alternative r"
  from winner_alternative(5) [OF this]
  show "\<forall>r' \<in> set reg. ep_id r' \<noteq> ep_id r \<longrightarrow> (\<forall>g \<in> set files. \<not> m r' g)"
    by (auto simp: other_match_def list_ex_iff)
next
  assume "\<not> mainfile_alternative r1" "mainfile_alternative r2" "ep_id r1 \<noteq> ep_id r2"
    "m r1 a" "\<not> m r1 b" "m r2 b"
  then show "resolve m [r1, r2] [a, b]
      = [(file_path a, Assigned (ep_id r1)), (file_path b, Unmatched)]"
    by (simp add: resolve_def resolve_file_def winner_def non_alternative_match_def
          alternative_match_def by_level_def)
qed

text \<open>The alternative-only directory of the spec: a lone alternative rule-set wins its file.\<close>

lemma alternative_only_directory:
  "mainfile_alternative r3 \<Longrightarrow> m r3 c \<Longrightarrow>
     resolve m [r3] [c] = [(file_path c, Assigned (ep_id r3))]"
  by (simp add: resolve_def resolve_file_def winner_def non_alternative_match_def
        alternative_match_def by_level_def other_match_def)

lemma alternative_match_cong_files:
  "set files = set files' \<Longrightarrow> alternative_match m reg files f = alternative_match m reg files' f"
  by (simp add: alternative_match_def other_match_def list_ex_iff)

lemma winner_cong_files:
  "set files = set files' \<Longrightarrow> winner m reg files f = winner m reg files' f"
  by (simp add: winner_def alternative_match_cong_files [of files files'] cong: option.case_cong)

lemma map_of_keyed_None:
  "y \<notin> k ` set xs \<Longrightarrow> map_of (map (\<lambda>x. (k x, v x)) xs) y = None"
  by (induction xs) auto

lemma map_of_keyed_Some:
  "inj_on k (set xs) \<Longrightarrow> z \<in> set xs \<Longrightarrow> map_of (map (\<lambda>x. (k x, v x)) xs) (k z) = Some (v z)"
proof (induction xs)
  case Nil
  then show ?case by simp
next
  case (Cons x xs)
  show ?case
  proof (cases "k x = k z")
    case True
    with Cons.prems have "x = z" by (auto simp: inj_on_def)
    then show ?thesis by simp
  next
    case False
    with Cons.prems have "z \<in> set xs" and "inj_on k (set xs)" by auto
    with Cons.IH False show ?thesis by simp
  qed
qed

text \<open>
  Claim C7.  The resolution is a function of the registry and of the directory contents
  alone, so running it twice gives the same mapping; and the mapping from file path to
  assignment does not depend on the order in which the files of the directory are
  listed: two listings of the same files, whose paths are distinct, resolve to the same
  mapping.  The order of the registry matters only through the tie-break of claim C2.
\<close>

theorem resolve_order_independent:
  assumes "set files = set files'" and "inj_on file_path (set files)"
  shows "map_of (resolve m reg files) = map_of (resolve m reg files')"
proof
  fix path
  from assms have inj': "inj_on file_path (set files')" by simp
  have same: "resolve_file m reg files f = resolve_file m reg files' f" for f
    by (simp add: resolve_file_def winner_cong_files [OF assms(1)])
  show "map_of (resolve m reg files) path = map_of (resolve m reg files') path"
  proof (cases "path \<in> file_path ` set files")
    case False
    with assms(1) show ?thesis
      by (simp add: resolve_def map_of_keyed_None)
  next
    case True
    then obtain f where f: "f \<in> set files" "path = file_path f" by auto
    with assms(1) have f': "f \<in> set files'" by simp
    from map_of_keyed_Some [OF assms(2) f(1), of "resolve_file m reg files"]
      map_of_keyed_Some [OF inj' f', of "resolve_file m reg files'"] f(2) same [of f]
    show ?thesis by (simp add: resolve_def)
  qed
qed

lemma json_pattern:
  "pattern_search ''application/json'' ''application/json'' = Some True"
  "pattern_search ''application/json'' ''text/plain'' = Some False"
  by (simp_all add: pattern_search_def re_compile.simps special_def atom_def then_compiled_def)

lemma example_parsers:
  "\<not> mainfile_alternative json_parser" "mainfile_alternative fallback_parser"
  "\<not> mainfile_alternative catch_all_parser" "\<not> mainfile_alternative ParserEntryPoint"
  "level json_parser = 0" "level catch_all_parser = 5" "level ParserEntryPoint = 0"
  "ep_id json_parser = Some ''parsers/json''" "ep_id fallback_parser = Some ''parsers/fallback''"
  "ep_id catch_all_parser = Some ''parsers/any''"
  by (simp_all add: json_parser_def fallback_parser_def catch_all_parser_def ParserEntryPoint_def)

lemma example_files:
  "file_path example_json = ''upload/run/results.json''"
  "file_path example_text = ''upload/run/notes.txt''"
  by (simp_all add: example_json_def example_text_def)

lemma example_matcher_catch_all:
  "example_matcher fallback_parser f" "example_matcher catch_all_parser f"
  "example_matcher ParserEntryPoint f"
proof -
  have "no_clauses_set fallback_parser" "no_clauses_set catch_all_parser"
    "no_clauses_set ParserEntryPoint"
    by (simp_all add: no_clauses_set_def fallback_parser_def catch_all_parser_def
          ParserEntryPoint_def)
  then show "example_matcher fallback_parser f" "example_matcher catch_all_parser f"
    "example_matcher ParserEntryPoint f"
    by (simp_all add: example_matcher_def entry_point_catch_all)
qed

lemma example_matcher_json:
  "example_matcher json_parser example_json" "\<not> example_matcher json_parser example_text"
  by (simp_all add: example_matcher_def matches_def json_parser_def ParserEntryPoint_def
        matches_clauses_no_content pattern_clause_def example_collaborators_def
        example_json_def example_text_def json_pattern)

theorem alternative_match_exclusive_witness:
  "winner example_matcher [json_parser, fallback_parser] [example_text] example_text
     = Some fallback_parser
   \<and> \<not> example_matcher json_parser example_text
   \<and> resolve example_matcher [json_parser, fallback_parser] [example_json, example_text]
       = [(''upload/run/results.json'', Assigned (Some ''parsers/json'')),
          (''upload/run/notes.txt'', Unmatched)]"
proof -
  have won: "winner example_matcher [json_parser, fallback_parser] [example_text] example_text
      = Some fallback_parser"
    by (simp add: winner_def non_alternative_match_def alternative_match_def other_match_def
          by_level_def example_parsers example_matcher_json example_matcher_catch_all)
  note inst = alternative_match_exclusive
    [of example_matcher "[json_parser, fallback_parser]" "[example_text]" example_text
        fallback_parser json_parser fallback_parser example_json example_text]
  from inst won have "\<not> example_matcher json_parser example_text"
    by (simp add: example_parsers)
  moreover from inst
  have "resolve example_matcher [json_parser, fallback_parser] [example_json, example_text]
       = [(''upload/run/results.json'', Assigned (Some ''parsers/json'')),
          (''upload/run/notes.txt'', Unmatched)]"
    by (simp add: example_parsers example_matcher_json example_matcher_catch_all example_files)
  ultimately show ?thesis using won by simp
qed

theorem first_match_by_level_witness:
  "\<not> mainfile_alternative catch_all_parser \<and> \<not> mainfile_alternative json_parser
   \<and> \<not> mainfile_alternative ParserEntryPoint
   \<and> resolve_file example_matcher [catch_all_parser, json_parser] [example_json] example_json
       = Assigned (Some ''parsers/json'')
   \<and> resolve_file example_matcher [json_parser, ParserEntryPoint] [example_json] example_json
       = Assigned (Some ''parsers/json'')"
proof -
  have 1: "\<forall>r \<in> set [catch_all_parser, json_parser]. \<not> mainfile_alternative r"
    and 2: "\<forall>r \<in> set [json_parser, ParserEntryPoint]. \<not> mainfile_alternative r"
    by (simp_all add: example_parsers)
  from first_match_by_level [OF 1, of example_matcher "[example_json]" example_json
      json_parser json_parser catch_all_parser json_parser ParserEntryPoint]
  have "resolve_file example_matcher [catch_all_parser, json_parser] [example_json] example_json
       = Assigned (Some ''parsers/json'')"
    by (simp add: example_parsers example_matcher_json example_matcher_catch_all)
  moreover
  from first_match_by_level [OF 2, of example_matcher "[example_json]" example_json
      json_parser json_parser catch_all_parser json_parser ParserEntryPoint]
  have "resolve_file example_matcher [json_parser, ParserEntryPoint] [example_json] example_json
       = Assigned (Some ''parsers/json'')"
    by (simp add: example_parsers example_matcher_json example_matcher_catch_all)
  ultimately show ?thesis by (simp add: example_parsers)
qed

theorem resolve_order_independent_witness:
  "set [example_json, example_text] = set [example_text, example_json]
   \<and> inj_on file_path (set [example_json, example_text])
   \<and> map_of (resolve example_matcher [json_parser, fallback_parser] [example_json, example_text])
       = map_of (resolve example_matcher [json_parser, fallback_parser] [example_text, example_json])"
proof -
  have 1: "set [example_json, example_text] = set [example_text, example_json]"
    by auto
  have 2: "inj_on file_path (set [example_json, example_text])"
    by (auto simp: example_files inj_on_def)
  from resolve_order_independent [OF 1 2] 1 2 show ?thesis by simp
qed

text \<open>
  The verdict of the matcher depends on a file only through its base name, its MIME type,
  its bytes and its codec.
\<close>

lemma matches_depends_on:
  assumes "basename (file_path f) = basename (file_path g)" and "mime f = mime g"
    and "contents f = contents g" and "compression f = compression g"
  shows "matches ext p f = matches ext p g"
proof -
  have "effective_contents ext cs f = effective_contents ext cs g" for cs
    unfolding effective_contents_def assms(3,4) ..
  then show ?thesis
    unfolding matches_def matches_clauses_def assms(1,2) by simp
qed

section \<open>Properties of the package clean-up\<close>













text \<open>
  Where the non-prerelease rows of a name carry distinct versions, the second row is the
  second-latest version.
\<close>

lemma second_row_is_second_latest:
  "distinct (filter (\<lambda>v. \<not> is_prerelease lib v)
       (List.map_filter (\<lambda>p. if name p = n then parse lib (version p) else None) packages))
     \<Longrightarrow> second_non_prerelease_row lib packages n = second_latest_non_prerelease lib packages n"
  by (simp add: second_non_prerelease_row_def second_latest_non_prerelease_def
        non_prerelease_rows_def non_prerelease_versions_def distinct_remdups_id)



text \<open>
  The function returns a list whenever the table is not empty and every version string
  parses; otherwise it raises.
\<close>

lemma parsed_version_returns:
  "\<forall>p \<in> set g. parse lib (version p) \<noteq> None \<Longrightarrow> \<exists>rows. parsed_version lib g = Inr rows"
  by (induction g) auto

lemma dev_versions_to_delete_returns:
  "\<forall>p \<in> set g. parse lib (version p) \<noteq> None \<Longrightarrow> \<exists>d. dev_versions_to_delete lib g = Inr d"
  using parsed_version_returns [of g lib]
  by (auto simp: dev_versions_to_delete_def Let_def)

lemma for_groups_returns:
  "\<forall>p \<in> set packages. parse lib (version p) \<noteq> None \<Longrightarrow>
     \<exists>dels. for_groups lib packages ns acc = Inr dels"
proof (induction ns arbitrary: acc)
  case Nil
  then show ?case by simp
next
  case (Cons n ns)
  from Cons.prems have "\<forall>p \<in> set (filter (\<lambda>p. name p = n) packages). parse lib (version p) \<noteq> None"
    by simp
  from dev_versions_to_delete_returns [OF this] obtain d
    where "dev_versions_to_delete lib (filter (\<lambda>p. name p = n) packages) = Inr d" ..
  with Cons.IH [OF Cons.prems] show ?case by simp
qed

lemma find_packages_to_delete_returns:
  "packages \<noteq> [] \<Longrightarrow> \<forall>p \<in> set packages. parse lib (version p) \<noteq> None \<Longrightarrow>
     \<exists>dels. find_packages_to_delete lib packages = Inr dels"
  using for_groups_returns [of packages lib] by (simp add: find_packages_to_delete_def)

end

